theory Spec2Isabelle
  imports Main
begin

section \<open>Exchange trading algorithm (catalyst/exchange/exchange_algorithm.py)\<close>

text \<open>
  A shallow embedding of the parts of \<^verbatim>\<open>exchange_algorithm.py\<close> that the specification
  speaks about. Python exceptions are values of the type \<open>error\<close>; a function that may
  raise returns \<open>error + 'a\<close> with \<open>Inl\<close> for the exception. Monetary amounts (Python
  floats) are kept abstract as a type \<open>'m\<close> with \<open>0\<close> and \<open>+\<close>: rounding is not modelled.
\<close>

subsection \<open>Exceptions\<close>

datatype error =
    ExchangeRequestError string
  | OrderTypeNotSupported string
  | ValueError string
  | UnboundLocalError string
  | OSError string
  | AttributeError string
  | OtherError string

subsection \<open>Order parameters\<close>

text \<open>
  The execution styles. \<^verbatim>\<open>ExchangeLimitOrder\<close> (catalyst.exchange.exchange_execution)
  and \<^verbatim>\<open>MarketOrder\<close> (catalyst.finance.execution) are imported from two modules that
  are not part of the source file; they are two distinct classes, neither derives from
  the other, and no class is taken to derive from both. \<open>OtherStyle c\<close> is an object of
  any other class, of name \<open>c\<close>; the two tests give the same verdict for it as for an
  object of a subclass of one of the two classes.
\<close>

datatype 'm style = MarketOrder | ExchangeLimitOrder 'm | OtherStyle string

fun style_class_name :: "'m style \<Rightarrow> string" where
  "style_class_name MarketOrder = ''MarketOrder''"
| "style_class_name (ExchangeLimitOrder p) = ''ExchangeLimitOrder''"
| "style_class_name (OtherStyle c) = c"

fun isinstance_ExchangeLimitOrder :: "'m style \<Rightarrow> bool" where
  "isinstance_ExchangeLimitOrder (ExchangeLimitOrder p) = True"
| "isinstance_ExchangeLimitOrder s = False"

fun isinstance_MarketOrder :: "'m style \<Rightarrow> bool" where
  "isinstance_MarketOrder MarketOrder = True"
| "isinstance_MarketOrder s = False"

text \<open>Python truthiness of an optional number: \<^verbatim>\<open>None\<close> and zero are falsy.\<close>

fun truthy :: "'m::zero option \<Rightarrow> bool" where
  "truthy None = False"
| "truthy (Some x) = (x \<noteq> 0)"

text \<open>
  \<^verbatim>\<open>__convert_order_params_for_blotter(limit_price, stop_price, style)\<close>, lines 96-129.
  A style object is always truthy (the style classes define neither \<^verbatim>\<open>__bool__\<close> nor
  \<^verbatim>\<open>__len__\<close>), so \<^verbatim>\<open>if style:\<close> is the test for \<open>Some\<close>.
\<close>

definition convert_order_params_for_blotter ::
  "'m::zero option \<Rightarrow> 'm option \<Rightarrow> 'm style option \<Rightarrow> error + 'm style" where
  "convert_order_params_for_blotter limit_price stop_price style =
     (if truthy stop_price then Inl (OrderTypeNotSupported ''stop'')
      else (case style of
          Some st \<Rightarrow>
            (if limit_price \<noteq> None
             then Inl (ValueError ''An order style and a limit price was included in the order.'')
             else if \<not> isinstance_ExchangeLimitOrder st \<or> \<not> isinstance_MarketOrder st
             then Inl (OrderTypeNotSupported (style_class_name st))
             else Inr st)
        | None \<Rightarrow>
            (case limit_price of
               Some p \<Rightarrow> (if p \<noteq> 0 then Inr (ExchangeLimitOrder p) else Inr MarketOrder)
             | None \<Rightarrow> Inr MarketOrder)))"

text \<open>
  \<^verbatim>\<open>_calculate_order\<close>, lines 146-160. \<^verbatim>\<open>validate_order_params\<close> is inherited from
  \<^verbatim>\<open>TradingAlgorithm\<close> and is a parameter here: it returns the exception it raises, if
  any. Neither function takes an exchange: no remote call can happen inside them.
\<close>

definition calculate_order ::
  "('a \<Rightarrow> 'm \<Rightarrow> 'm option \<Rightarrow> 'm option \<Rightarrow> 'm style option \<Rightarrow> error option) \<Rightarrow>
   'a \<Rightarrow> 'm::zero \<Rightarrow> 'm option \<Rightarrow> 'm option \<Rightarrow> 'm style option \<Rightarrow> error + ('m \<times> 'm style)" where
  "calculate_order validate_order_params asset amount limit_price stop_price style =
     (case validate_order_params asset amount limit_price stop_price style of
        Some e \<Rightarrow> Inl e
      | None \<Rightarrow>
          (case convert_order_params_for_blotter limit_price stop_price style of
             Inl e \<Rightarrow> Inl e
           | Inr st \<Rightarrow> Inr (amount, st)))"

subsection \<open>Assets, positions, portfolio and exchanges\<close>

text \<open>
  An asset names the exchange it trades on (\<^verbatim>\<open>asset.exchange\<close>, line 810). A position
  has the four attributes that \<^verbatim>\<open>synchronize_portfolio\<close> reads (lines 573-576); dates
  are integers (a time stamp).
\<close>

record asset =
  symbol :: string
  exchange :: string

record 'm position =
  asset :: asset
  amount :: 'm
  last_sale_date :: int
  last_sale_price :: 'm

text \<open>
  \<^verbatim>\<open>self.portfolio\<close>: the cash and the dictionary of positions, keyed by asset, as an
  association list in the dictionary's iteration order.
\<close>

record 'm portfolio =
  cash :: 'm
  positions :: "(asset \<times> 'm position) list"

text \<open>
  An exchange object. \<^verbatim>\<open>sync_positions(positions, check_balances, cash)\<close> is the remote
  call: it raises, or it returns the cash and the value of the positions, and it may
  change the position objects it was handed (the third component is the list after the
  call).
\<close>

record 'm gateway =
  base_currency :: string
  sync_positions ::
    "'m position list \<Rightarrow> bool \<Rightarrow> 'm \<Rightarrow> error + ('m \<times> 'm \<times> 'm position list)"

text \<open>
  The attributes of the live algorithm that reconciliation uses: \<^verbatim>\<open>simulate_orders\<close>
  (\<^verbatim>\<open>None\<close>, \<^verbatim>\<open>True\<close> or \<^verbatim>\<open>False\<close>), the dictionary \<^verbatim>\<open>exchanges\<close> in
  iteration order, the portfolio, and the positions of
  \<^verbatim>\<open>perf_tracker.position_tracker\<close> (the ledger).
\<close>

record 'm live_algo =
  simulate_orders :: "bool option"
  exchanges :: "(string \<times> 'm gateway) list"
  portfolio :: "'m portfolio"
  tracker :: "asset \<rightharpoonup> 'm position"

fun py_bool :: "bool option \<Rightarrow> bool" where
  "py_bool None = False"
| "py_bool (Some b) = b"

text \<open>
  Modelled from the spec: \<^verbatim>\<open>group_assets_by_exchange\<close> (catalyst.exchange.utils.exchange_utils)
  is not part of the source file. Section 4.3, step 1: the positions are partitioned by
  the exchange of their asset. The result is a dictionary from exchange names to the
  assets of that exchange; an exchange without assets has no key.
\<close>

definition group_assets_by_exchange :: "asset list \<Rightarrow> (string \<rightharpoonup> asset list)" where
  "group_assets_by_exchange assets =
     (\<lambda>exchange_name.
        (let members = filter (\<lambda>a. exchange a = exchange_name) assets
         in if members = [] then None else Some members))"

text \<open>
  Modelled from the spec: \<^verbatim>\<open>PositionTracker.update_position\<close> is not part of the source
  file. Section 4.3, step 3: the position is merged into the ledger by asset key,
  overwriting amount, last sale price and last sale date; an asset the ledger does not
  hold gets a new entry.
\<close>

definition update_position ::
  "(asset \<rightharpoonup> 'm position) \<Rightarrow> asset \<Rightarrow> 'm \<Rightarrow> int \<Rightarrow> 'm \<Rightarrow> (asset \<rightharpoonup> 'm position)" where
  "update_position tr a amt date price =
     (case tr a of
        None \<Rightarrow> tr(a \<mapsto> \<lparr>asset = a, amount = amt, last_sale_date = date, last_sale_price = price\<rparr>)
      | Some p \<Rightarrow> tr(a \<mapsto> p\<lparr>amount := amt, last_sale_date := date, last_sale_price := price\<rparr>))"

subsection \<open>Portfolio reconciliation\<close>

text \<open>
  Lines 550-555: the positions handed to one exchange,
  \<^verbatim>\<open>[positions[asset] for asset in assets if asset in positions]\<close> with \<^verbatim>\<open>assets\<close> the
  group of the exchange, or the empty list. The deep copy is the value itself.
\<close>

definition exchange_positions ::
  "(string \<rightharpoonup> asset list) \<Rightarrow> (asset \<times> 'm position) list \<Rightarrow> string \<Rightarrow> 'm position list" where
  "exchange_positions exchange_assets position_dict exchange_name =
     (let assets = (case exchange_assets exchange_name of Some members \<Rightarrow> members | None \<Rightarrow> [])
      in List.map_filter (map_of position_dict) assets)"

text \<open>Lines 571-577: the positions of one exchange, after its call, go to the ledger.\<close>

definition apply_positions ::
  "(asset \<rightharpoonup> 'm position) \<Rightarrow> 'm position list \<Rightarrow> (asset \<rightharpoonup> 'm position)" where
  "apply_positions tr ps =
     fold (\<lambda>p t. update_position t (asset p) (amount p) (last_sale_date p) (last_sale_price p)) ps tr"

text \<open>
  Lines 549-577: the loop over the configured exchanges. Its state is the two running
  totals and the ledger; an exception of \<^verbatim>\<open>sync_positions\<close> ends it, with the ledger as
  it is at that moment. (The local \<^verbatim>\<open>base_currency\<close> is assigned and never read.)
\<close>

fun sync_exchanges ::
  "bool \<Rightarrow> 'm::plus portfolio \<Rightarrow> (string \<rightharpoonup> asset list) \<Rightarrow> (string \<times> 'm gateway) list \<Rightarrow>
   'm \<times> 'm \<times> (asset \<rightharpoonup> 'm position) \<Rightarrow> (error + 'm \<times> 'm) \<times> (asset \<rightharpoonup> 'm position)" where
  "sync_exchanges check_balances pf exchange_assets [] (total_cash, total_positions_value, tr) =
     (Inr (total_cash, total_positions_value), tr)"
| "sync_exchanges check_balances pf exchange_assets ((exchange_name, ex) # rest)
       (total_cash, total_positions_value, tr) =
     (case sync_positions ex (exchange_positions exchange_assets (positions pf) exchange_name)
             check_balances (cash pf) of
        Inl e \<Rightarrow> (Inl e, tr)
      | Inr (c, positions_value, ps) \<Rightarrow>
          sync_exchanges check_balances pf exchange_assets rest
            (total_cash + c, total_positions_value + positions_value, apply_positions tr ps))"

text \<open>
  \<^verbatim>\<open>synchronize_portfolio\<close>, lines 517-582: the result or the exception, and the
  algorithm after the call.
\<close>

definition synchronize_portfolio ::
  "'m::{zero,plus} live_algo \<Rightarrow> (error + 'm \<times> 'm) \<times> 'm live_algo" where
  "synchronize_portfolio self =
     (let check_balances = (\<not> py_bool (simulate_orders self));
          exchange_assets = group_assets_by_exchange (map fst (positions (portfolio self)))
      in (case sync_exchanges check_balances (portfolio self) exchange_assets (exchanges self)
                 (0, 0, tracker self) of
            (Inl e, tr) \<Rightarrow> (Inl e, self\<lparr>tracker := tr\<rparr>)
          | (Inr (total_cash, total_positions_value), tr) \<Rightarrow>
              (Inr (if \<not> check_balances then cash (portfolio self) else total_cash,
                    total_positions_value),
               self\<lparr>tracker := tr\<rparr>)))"

text \<open>
  What the \<^verbatim>\<open>sync_positions\<close> call of each configured exchange returns in a run of
  \<^verbatim>\<open>synchronize_portfolio\<close>, in the order of the exchanges.
\<close>

definition sync_call :: "'m live_algo \<Rightarrow> string \<times> 'm gateway \<Rightarrow> error + ('m \<times> 'm \<times> 'm position list)" where
  "sync_call self = (\<lambda>(exchange_name, ex).
     sync_positions ex
       (exchange_positions (group_assets_by_exchange (map fst (positions (portfolio self))))
          (positions (portfolio self)) exchange_name)
       (\<not> py_bool (simulate_orders self)) (cash (portfolio self)))"



subsection \<open>Bounded retry\<close>

text \<open>Lines 74-85: the table of attempts, set once at construction.\<close>

record attempts_table =
  get_transactions_attempts :: nat
  order_attempts :: nat
  synchronize_portfolio_attempts :: nat
  get_order_attempts :: nat
  get_open_orders_attempts :: nat
  cancel_order_attempts :: nat
  get_spot_value_attempts :: nat
  get_history_window_attempts :: nat
  retry_sleeptime :: nat

definition attempts :: attempts_table where
  "attempts =
     \<lparr>get_transactions_attempts = 5, order_attempts = 5, synchronize_portfolio_attempts = 5,
      get_order_attempts = 5, get_open_orders_attempts = 5, cancel_order_attempts = 5,
      get_spot_value_attempts = 5, get_history_window_attempts = 5, retry_sleeptime = 5\<rparr>"

text \<open>
  What a retried call leaves to observe: each attempt with the exception it raised
  (\<open>None\<close> when it returned), each warning, each sleep with its duration.
\<close>

datatype retry_event = Attempt "error option" | Warned string | Slept nat

fun attempts_made :: "retry_event list \<Rightarrow> error option list" where
  "attempts_made [] = []"
| "attempts_made (Attempt r # evs) = r # attempts_made evs"
| "attempts_made (ev # evs) = attempts_made evs"

fun sleeps :: "retry_event list \<Rightarrow> nat list" where
  "sleeps [] = []"
| "sleeps (Slept n # evs) = n # sleeps evs"
| "sleeps (ev # evs) = sleeps evs"

text \<open>
  Modelled from the spec: \<^verbatim>\<open>retry\<close> is imported from the library \<^verbatim>\<open>redo\<close> and is not
  part of the source file. Section 4.1 (RetryExecutor): the action is called; on a
  failure of a retryable kind a warning is emitted, the executor sleeps the configured
  interval and calls again, up to the maximal number of attempts in total; a failure of
  any other kind propagates at once; when the attempts are used up the last error
  propagates. The action works on a state \<open>'w\<close> (the algorithm and the remote world), so
  that successive attempts may differ. \<open>retry_from k\<close> has \<open>k\<close> attempts left after the
  one it makes.
\<close>

fun retry_from ::
  "nat \<Rightarrow> ('w \<Rightarrow> (error + 'r) \<times> 'w) \<Rightarrow> nat \<Rightarrow> (error \<Rightarrow> bool) \<Rightarrow> string \<Rightarrow> 'w \<Rightarrow>
   (error + 'r) \<times> 'w \<times> retry_event list" where
  "retry_from 0 action sleeptime retry_exceptions cleanup w =
     (case action w of
        (Inr v, w') \<Rightarrow> (Inr v, w', [Attempt None])
      | (Inl e, w') \<Rightarrow> (Inl e, w', [Attempt (Some e)]))"
| "retry_from (Suc k) action sleeptime retry_exceptions cleanup w =
     (case action w of
        (Inr v, w') \<Rightarrow> (Inr v, w', [Attempt None])
      | (Inl e, w') \<Rightarrow>
          (if retry_exceptions e
           then (case retry_from k action sleeptime retry_exceptions cleanup w' of
                   (r, w'', evs) \<Rightarrow>
                     (r, w'', Attempt (Some e) # Warned cleanup # Slept sleeptime # evs))
           else (Inl e, w', [Attempt (Some e)])))"

definition retry ::
  "('w \<Rightarrow> (error + 'r) \<times> 'w) \<Rightarrow> nat \<Rightarrow> nat \<Rightarrow> (error \<Rightarrow> bool) \<Rightarrow> string \<Rightarrow> 'w \<Rightarrow>
   (error + 'r) \<times> 'w \<times> retry_event list" where
  "retry action max_attempts sleeptime retry_exceptions cleanup w =
     retry_from (max_attempts - 1) action sleeptime retry_exceptions cleanup w"

text \<open>\<^verbatim>\<open>retry_exceptions=(ExchangeRequestError,)\<close>: the test of the exception's class.\<close>

fun isinstance_ExchangeRequestError :: "error \<Rightarrow> bool" where
  "isinstance_ExchangeRequestError (ExchangeRequestError msg) = True"
| "isinstance_ExchangeRequestError e = False"

subsection \<open>The tick and the shutdown of the live algorithm\<close>

text \<open>
  The attributes of the live algorithm that \<^verbatim>\<open>handle_data\<close> and
  \<^verbatim>\<open>interrupt_algorithm\<close> use: the flags \<^verbatim>\<open>is_running\<close> and
  \<^verbatim>\<open>portfolio_needs_update\<close>, whether an \<^verbatim>\<open>analyze\<close> callback is configured
  (\<^verbatim>\<open>self._analyze is not None\<close>), and the calls of \<^verbatim>\<open>self.analyze\<close> made so far, each
  with the history it was given. \<open>world\<close> is everything else the tick works on: the
  performance tracker, the ledger and the remote exchanges.
\<close>

record ('w, 'd) live_run =
  is_running :: bool
  portfolio_needs_update :: bool
  has_analyze :: bool
  analyze_calls :: "'d list list"
  world :: 'w

text \<open>
  \<^verbatim>\<open>handle_data\<close>, lines 661-723. \<open>bookkeeping\<close> stands for lines 673-687 (statistics
  of the frame, update of the performance), \<open>synchronize\<close> for the bound method
  \<^verbatim>\<open>self.synchronize_portfolio\<close>, and \<open>rest\<close> for lines 704-723 (the strategy callback,
  the account controls, the statistics and the checkpoint). When
  \<^verbatim>\<open>portfolio_needs_update\<close> is false the locals \<^verbatim>\<open>cash\<close> and \<^verbatim>\<open>positions_value\<close> are
  unbound at line 699.
\<close>

definition handle_data ::
  "('w \<Rightarrow> error + 'w) \<Rightarrow> ('w \<Rightarrow> (error + 'm \<times> 'm) \<times> 'w) \<Rightarrow>
   (('w, 'd) live_run \<Rightarrow> (error + unit) \<times> ('w, 'd) live_run) \<Rightarrow>
   ('w, 'd) live_run \<Rightarrow> (error + unit) \<times> ('w, 'd) live_run \<times> retry_event list" where
  "handle_data bookkeeping synchronize rest self =
     (if \<not> is_running self then (Inr (), self, [])
      else (case bookkeeping (world self) of
          Inl e \<Rightarrow> (Inl e, self, [])
        | Inr w0 \<Rightarrow>
            (if portfolio_needs_update self
             then (case retry synchronize (synchronize_portfolio_attempts attempts)
                          (retry_sleeptime attempts) isinstance_ExchangeRequestError
                          ''Ordering again.'' w0 of
                     (Inl e, w1, evs) \<Rightarrow> (Inl e, self\<lparr>world := w1\<rparr>, evs)
                   | (Inr (csh, positions_value), w1, evs) \<Rightarrow>
                       (case rest (self\<lparr>portfolio_needs_update := False, world := w1\<rparr>) of
                          (r, self') \<Rightarrow> (r, self', evs)))
             else (Inl (UnboundLocalError ''cash''), self\<lparr>world := w0\<rparr>, []))))"




subsection \<open>Performance tracker\<close>

text \<open>
  A value of the statistics dictionary: an amount, a time stamp, a count, a list of
  dictionaries (\<open>'d\<close> is the type of what \<^verbatim>\<open>to_dict()\<close> returns), or any other value.
\<close>

datatype ('m, 'd) stat = Amount 'm | Stamp int | Count int | Dicts "'d list" | Other 'd

text \<open>
  A performance period (\<^verbatim>\<open>cumulative_performance\<close> and \<^verbatim>\<open>todays_performance\<close> have the
  same attributes). \<^verbatim>\<open>processed_transactions\<close> maps a date to a list of transactions,
  \<^verbatim>\<open>orders_by_modified\<close> maps a date to a dictionary from order ids to orders; both are
  association lists in iteration order.
\<close>

record ('m, 't, 'o) performance_period =
  starting_cash :: 'm
  starting_exposure :: 'm
  starting_value :: 'm
  ending_cash :: 'm
  ending_exposure :: 'm
  ending_value :: 'm
  cash_flow :: 'm
  pnl :: 'm
  returns :: 'm
  position_tracker :: "asset \<rightharpoonup> 'm position"
  processed_transactions :: "(int \<times> 't list) list"
  orders_by_modified :: "(int \<times> (string \<times> 'o) list) list"

text \<open>
  The performance tracker; \<^verbatim>\<open>cumulative_risk_metrics\<close> is given by its \<^verbatim>\<open>to_dict()\<close>.
\<close>

record ('m, 't, 'o, 'd) performance_tracker =
  period_start :: int
  period_end :: int
  capital_base :: 'm
  progress :: 'm
  cumulative_performance :: "('m, 't, 'o) performance_period"
  todays_performance :: "('m, 't, 'o) performance_period"
  cumulative_risk_metrics :: "string \<rightharpoonup> ('m, 'd) stat"

text \<open>
  The attributes of the algorithm that \<^verbatim>\<open>get_generator\<close> and
  \<^verbatim>\<open>prepare_period_stats\<close> use. \<open>Executor\<close> stands for the
  \<^verbatim>\<open>ExchangeAlgorithmExecutor\<close> object.
\<close>

datatype executor = Executor

record ('m, 't, 'o, 'd) algo_core =
  algo_namespace :: string
  trading_client :: "executor option"
  perf_tracker :: "('m, 't, 'o, 'd) performance_tracker option"
  initialized :: bool
  recorded_vars :: "string \<rightharpoonup> ('m, 'd) stat"

subsection \<open>Period statistics\<close>

text \<open>
  What \<^verbatim>\<open>position_tracker.stats()\<close> and \<^verbatim>\<open>calc_period_stats\<close> return, as far as
  \<^verbatim>\<open>prepare_period_stats\<close> reads them.
\<close>

record 'm position_stats =
  short_exposure :: 'm
  long_exposure :: 'm
  short_value :: 'm
  long_value :: 'm
  longs_count :: int
  shorts_count :: int

record 'm leverage_stats =
  gross_leverage :: 'm
  net_leverage :: 'm

text \<open>
  The functions \<^verbatim>\<open>prepare_period_stats\<close> calls that are defined outside the source
  file; they are parameters.
\<close>

record ('m, 't, 'o, 'd) stats_functions =
  stats_of_positions :: "(asset \<rightharpoonup> 'm position) \<Rightarrow> 'm position_stats"
  calc_period_stats :: "'m position_stats \<Rightarrow> 'm \<Rightarrow> 'm leverage_stats"
  get_positions_list :: "(asset \<rightharpoonup> 'm position) \<Rightarrow> 'd list"
  transaction_to_dict :: "'t \<Rightarrow> 'd"
  order_to_dict :: "'o \<Rightarrow> 'd"

text \<open>Lines 280-284: the transactions whose date lies in the window.\<close>

definition window_transactions :: "int \<Rightarrow> int \<Rightarrow> (int \<times> 't list) list \<Rightarrow> 't list" where
  "window_transactions start_dt end_dt by_date =
     concat (map (\<lambda>(date, transactions). if start_dt \<le> date \<and> date < end_dt then transactions else [])
               by_date)"

text \<open>Lines 287-291: the orders whose date of modification lies in the window.\<close>

definition window_orders :: "int \<Rightarrow> int \<Rightarrow> (int \<times> (string \<times> 'o) list) list \<Rightarrow> 'o list" where
  "window_orders start_dt end_dt by_date =
     concat (map (\<lambda>(date, orders). if start_dt \<le> date \<and> date < end_dt then map snd orders else [])
               by_date)"

text \<open>
  \<^verbatim>\<open>prepare_period_stats\<close>, lines 219-293. The statistics are a dictionary from keys to
  values; \<^verbatim>\<open>stats.update(d)\<close> is \<open>stats ++ d\<close>. Without a performance tracker the first
  attribute access fails. The functions of \<open>fns\<close> are taken to return.
\<close>

definition prepare_period_stats ::
  "('m::plus, 't, 'o, 'd) stats_functions \<Rightarrow> ('m, 't, 'o, 'd) algo_core \<Rightarrow> int \<Rightarrow> int \<Rightarrow>
   error + (string \<rightharpoonup> ('m, 'd) stat)" where
  "prepare_period_stats fns self start_dt end_dt =
     (case perf_tracker self of
        None \<Rightarrow> Inl (AttributeError ''cumulative_performance'')
      | Some tr \<Rightarrow>
         (let cum = cumulative_performance tr;
              pos_stats = stats_of_positions fns (position_tracker cum);
              period_stats = calc_period_stats fns pos_stats (ending_cash cum);
              stats0 =
                [''period_start'' \<mapsto> Stamp (period_start tr),
                 ''period_end'' \<mapsto> Stamp (period_end tr),
                 ''capital_base'' \<mapsto> Amount (capital_base tr),
                 ''progress'' \<mapsto> Amount (progress tr),
                 ''ending_value'' \<mapsto> Amount (ending_value cum),
                 ''ending_exposure'' \<mapsto> Amount (ending_exposure cum),
                 ''capital_used'' \<mapsto> Amount (cash_flow cum),
                 ''starting_value'' \<mapsto> Amount (starting_value cum),
                 ''starting_exposure'' \<mapsto> Amount (starting_exposure cum),
                 ''starting_cash'' \<mapsto> Amount (starting_cash cum),
                 ''ending_cash'' \<mapsto> Amount (ending_cash cum),
                 ''portfolio_value'' \<mapsto> Amount (ending_cash cum + ending_value cum),
                 ''pnl'' \<mapsto> Amount (pnl cum),
                 ''returns'' \<mapsto> Amount (returns cum),
                 ''period_open'' \<mapsto> Stamp start_dt,
                 ''period_close'' \<mapsto> Stamp end_dt,
                 ''gross_leverage'' \<mapsto> Amount (gross_leverage period_stats),
                 ''net_leverage'' \<mapsto> Amount (net_leverage period_stats),
                 ''short_exposure'' \<mapsto> Amount (short_exposure pos_stats),
                 ''long_exposure'' \<mapsto> Amount (long_exposure pos_stats),
                 ''short_value'' \<mapsto> Amount (short_value pos_stats),
                 ''long_value'' \<mapsto> Amount (long_value pos_stats),
                 ''longs_count'' \<mapsto> Count (longs_count pos_stats),
                 ''shorts_count'' \<mapsto> Count (shorts_count pos_stats)];
              stats1 = stats0 ++ cumulative_risk_metrics tr;
              stats2 = stats1 ++ recorded_vars self;
              stats3 = stats2(''positions'' \<mapsto> Dicts (get_positions_list fns (position_tracker cum)));
              period = todays_performance tr;
              stats4 = stats3(''transactions'' \<mapsto>
                 Dicts (map (transaction_to_dict fns)
                          (window_transactions start_dt end_dt (processed_transactions period))));
              stats5 = stats4(''orders'' \<mapsto>
                 Dicts (map (order_to_dict fns)
                          (window_orders start_dt end_dt (orders_by_modified period))))
          in Inr stats5))"

subsection \<open>Checkpoints and start-up\<close>

text \<open>
  Modelled from the spec: \<^verbatim>\<open>save_algo_object\<close> and \<^verbatim>\<open>get_algo_object\<close>
  (catalyst.exchange.utils.exchange_utils) are not part of the source file. Section 4.6
  (CheckpointStore): \<open>save(namespace, key, payload)\<close> overwrites the payload under the
  key, \<open>load(namespace, key)\<close> returns the payload or NotFound (\<open>None\<close>). The store is
  a map from namespace and key to the payload.
\<close>

definition save_algo_object ::
  "(string \<times> string \<rightharpoonup> 'p) \<Rightarrow> string \<Rightarrow> string \<Rightarrow> 'p \<Rightarrow> (string \<times> string \<rightharpoonup> 'p)" where
  "save_algo_object store algo_name key obj = store((algo_name, key) \<mapsto> obj)"

definition get_algo_object :: "(string \<times> string \<rightharpoonup> 'p) \<Rightarrow> string \<Rightarrow> string \<Rightarrow> 'p option" where
  "get_algo_object store algo_name key = store (algo_name, key)"

text \<open>
  \<^verbatim>\<open>get_generator\<close>, lines 463-509. \<open>new_tracker\<close> is the tracker the constructor
  \<^verbatim>\<open>PerformanceTracker(...)\<close> builds. The generator returned by \<^verbatim>\<open>transform()\<close> is not
  modelled: the result is the algorithm after the call.
\<close>

definition get_generator ::
  "(string \<times> string \<rightharpoonup> ('m, 't, 'o) performance_period) \<Rightarrow> ('m, 't, 'o, 'd) performance_tracker \<Rightarrow>
   ('m, 't, 'o, 'd) algo_core \<Rightarrow> ('m, 't, 'o, 'd) algo_core" where
  "get_generator store new_tracker self =
     (if trading_client self \<noteq> None then self
      else
        (let (perf, self1) =
               (if perf_tracker self = None
                then (get_algo_object store (algo_namespace self) ''cumulative_performance'',
                      self\<lparr>perf_tracker := Some new_tracker\<rparr>)
                else (None, self));
             self2 = self1\<lparr>initialized := True\<rparr>;
             self3 =
               (case perf of
                  None \<Rightarrow> self2
                | Some p \<Rightarrow>
                    self2\<lparr>perf_tracker :=
                      map_option
                        (\<lambda>tr. tr\<lparr>cumulative_performance := p,
                                 todays_performance :=
                                   (todays_performance tr)
                                     \<lparr>starting_cash := ending_cash p,
                                      starting_exposure := ending_exposure p,
                                      starting_value := ending_value p,
                                      position_tracker := position_tracker p\<rparr>\<rparr>)
                        (perf_tracker self2)\<rparr>)
         in self3\<lparr>trading_client := Some Executor\<rparr>))"

subsection \<open>Example data\<close>

definition asset_a :: asset where
  "asset_a = \<lparr>symbol = ''btc_usd'', exchange = ''A''\<rparr>"

definition asset_b :: asset where
  "asset_b = \<lparr>symbol = ''eth_usd'', exchange = ''B''\<rparr>"

definition pos_a :: "int position" where
  "pos_a = \<lparr>asset = asset_a, amount = 2, last_sale_date = 1, last_sale_price = 10\<rparr>"

definition pos_b :: "int position" where
  "pos_b = \<lparr>asset = asset_b, amount = 1, last_sale_date = 1, last_sale_price = 3\<rparr>"

text \<open>An exchange that answers: it sets the last sale price and date of every position.\<close>

definition gateway_ok :: "int \<Rightarrow> int \<Rightarrow> int \<Rightarrow> int gateway" where
  "gateway_ok c pv price =
     \<lparr>base_currency = ''usd'',
      sync_positions = (\<lambda>ps check_balances csh.
         Inr (c, pv, map (\<lambda>p. p\<lparr>last_sale_date := 2, last_sale_price := price\<rparr>) ps))\<rparr>"

text \<open>An exchange whose call fails with an error that is not a request error.\<close>

definition gateway_fatal :: "int gateway" where
  "gateway_fatal =
     \<lparr>base_currency = ''usd'',
      sync_positions = (\<lambda>ps check_balances csh. Inl (OtherError ''invalid credentials''))\<rparr>"

definition example_algo :: "bool option \<Rightarrow> int gateway \<Rightarrow> int live_algo" where
  "example_algo sim gateway_of_b =
     \<lparr>simulate_orders = sim,
      exchanges = [(''A'', gateway_ok 100 50 25), (''B'', gateway_of_b)],
      portfolio = \<lparr>cash = 1000, positions = [(asset_a, pos_a), (asset_b, pos_b)]\<rparr>,
      tracker = [asset_a \<mapsto> pos_a, asset_b \<mapsto> pos_b]\<rparr>"

text \<open>
  Two remote worlds for a tick, each counting the calls made: one where the
  synchronisation always fails with a request error, and a tick in its initial state.
\<close>

definition always_busy :: "nat \<Rightarrow> (error + int \<times> int) \<times> nat" where
  "always_busy w = (Inl (ExchangeRequestError ''timeout''), Suc w)"

definition example_run :: "(nat, string) live_run" where
  "example_run = \<lparr>is_running = True, portfolio_needs_update = True, has_analyze = True,
                  analyze_calls = [], world = 0\<rparr>"

text \<open>
  A tracker with one transaction and one order at date 5, a new tracker, and an
  algorithm that has not started yet.
\<close>

definition example_period :: "(int, string, string) performance_period" where
  "example_period =
     \<lparr>starting_cash = 1000, starting_exposure = 0, starting_value = 0,
      ending_cash = 900, ending_exposure = 150, ending_value = 150,
      cash_flow = - 100, pnl = 50, returns = 0,
      position_tracker = [asset_a \<mapsto> pos_a],
      processed_transactions = [(5, [''buy btc''])],
      orders_by_modified = [(5, [(''order-1'', ''buy btc'')])]\<rparr>"

definition new_period :: "(int, string, string) performance_period" where
  "new_period =
     \<lparr>starting_cash = 1000, starting_exposure = 0, starting_value = 0,
      ending_cash = 1000, ending_exposure = 0, ending_value = 0,
      cash_flow = 0, pnl = 0, returns = 0,
      position_tracker = Map.empty, processed_transactions = [], orders_by_modified = []\<rparr>"

definition example_tracker ::
  "(int, string, string) performance_period \<Rightarrow> (int, string, string, string) performance_tracker" where
  "example_tracker period =
     \<lparr>period_start = 0, period_end = 100, capital_base = 1000, progress = 0,
      cumulative_performance = period, todays_performance = period,
      cumulative_risk_metrics = [''sharpe'' \<mapsto> Amount 0]\<rparr>"

definition example_core :: "(int, string, string, string) algo_core" where
  "example_core =
     \<lparr>algo_namespace = ''my_algo'', trading_client = None, perf_tracker = None,
      initialized = False, recorded_vars = [''transactions'' \<mapsto> Other ''recorded'']\<rparr>"

definition example_fns :: "(int, string, string, string) stats_functions" where
  "example_fns =
     \<lparr>stats_of_positions = (\<lambda>tr. \<lparr>short_exposure = 0, long_exposure = 0, short_value = 0,
                                   long_value = 0, longs_count = 0, shorts_count = 0\<rparr>),
      calc_period_stats = (\<lambda>ps c. \<lparr>gross_leverage = 0, net_leverage = 0\<rparr>),
      get_positions_list = (\<lambda>tr. []),
      transaction_to_dict = (\<lambda>t. t),
      order_to_dict = (\<lambda>ord. ord)\<rparr>"

section \<open>Properties\<close>

subsection \<open>Order-parameter conversion\<close>

text \<open>
  Claim C9. A request with a truthy stop price is refused by the conversion with
  \<open>OrderTypeNotSupported ''stop''\<close>, whatever the limit price and the style are; so
  \<open>_calculate_order\<close> never returns an order for it (it raises the validation error, or
  else this one), and it does so before anything is handed to an exchange.
\<close>

theorem stop_price_rejected:
  assumes "truthy stop_price"
  shows "convert_order_params_for_blotter limit_price stop_price style
           = Inl (OrderTypeNotSupported ''stop'')
       \<and> calculate_order validate a amt limit_price stop_price style
           = (case validate a amt limit_price stop_price style of
                Some e \<Rightarrow> Inl e
              | None \<Rightarrow> Inl (OrderTypeNotSupported ''stop''))"
  using assms
  by (simp add: convert_order_params_for_blotter_def calculate_order_def split: option.split)

theorem stop_price_rejected_witness:
  "truthy (Some (10::int))
   \<and> convert_order_params_for_blotter (Some 3) (Some (10::int)) (Some MarketOrder)
       = Inl (OrderTypeNotSupported ''stop'')
   \<and> calculate_order (\<lambda>a n l s st. None) ''btc_usd'' (1::int) (Some 3) (Some 10) (Some MarketOrder)
       = Inl (OrderTypeNotSupported ''stop'')"
proof -
  have t: "truthy (Some (10::int))" by simp
  show ?thesis
    using t stop_price_rejected [OF t, where limit_price = "Some 3" and style = "Some MarketOrder"
        and validate = "\<lambda>a n l s st. None" and a = "''btc_usd''" and amt = 1]
    by simp
qed

text \<open>
  Claim C10. With a falsy stop price, every style object makes the conversion raise:
  \<open>ValueError\<close> when a limit price is given too, and otherwise \<open>OrderTypeNotSupported\<close>
  with the name of the style's class, also for \<open>ExchangeLimitOrder\<close> and \<open>MarketOrder\<close>
  objects (the test asks for an instance of both classes). Hence the conversion returns a
  limit order exactly when no style is given and the limit price is truthy.
\<close>

theorem style_object_always_rejected:
  assumes "\<not> truthy stop_price"
  shows "convert_order_params_for_blotter limit_price stop_price (Some st)
           = (if limit_price \<noteq> None
              then Inl (ValueError ''An order style and a limit price was included in the order.'')
              else Inl (OrderTypeNotSupported (style_class_name st)))
       \<and> (convert_order_params_for_blotter limit_price stop_price style = Inr (ExchangeLimitOrder p)
            \<longleftrightarrow> style = None \<and> limit_price = Some p \<and> p \<noteq> 0)"
proof -
  have both: "\<not> (isinstance_ExchangeLimitOrder s \<and> isinstance_MarketOrder s)" for s :: "'a style"
    by (cases s) simp_all
  show ?thesis
    using assms both
    by (auto simp: convert_order_params_for_blotter_def split: option.splits)
qed

theorem style_object_always_rejected_witness:
  "\<not> truthy (None :: int option)
   \<and> convert_order_params_for_blotter None (None :: int option) (Some (ExchangeLimitOrder 5))
       = Inl (OrderTypeNotSupported ''ExchangeLimitOrder'')
   \<and> convert_order_params_for_blotter None (None :: int option) (Some MarketOrder)
       = Inl (OrderTypeNotSupported ''MarketOrder'')
   \<and> convert_order_params_for_blotter (Some 7) (None :: int option) None
       = Inr (ExchangeLimitOrder 7)"
proof -
  have f: "\<not> truthy (None :: int option)" by simp
  show ?thesis
    using f
      style_object_always_rejected [OF f, where limit_price = None and st = "ExchangeLimitOrder 5"
        and style = None and p = 5]
      style_object_always_rejected [OF f, where limit_price = "Some 7" and st = MarketOrder
        and style = None and p = 7]
      style_object_always_rejected [OF f, where limit_price = None and st = MarketOrder
        and style = None and p = 7]
    by simp
qed

subsection \<open>Portfolio reconciliation: the loop\<close>

lemma sync_exchanges_totals:
  fixes tc tpv :: "'m::monoid_add"
  shows "map (\<lambda>(n, ex). sync_positions ex (exchange_positions ea (positions pf) n) cb (cash pf)) exs
           = map Inr rs \<Longrightarrow>
         fst (sync_exchanges cb pf ea exs (tc, tpv, tr))
           = Inr (tc + sum_list (map fst rs), tpv + sum_list (map (fst \<circ> snd) rs))"
proof (induction exs arbitrary: rs tc tpv tr)
  case Nil
  then show ?case by simp
next
  case (Cons x exs)
  obtain n ex where x: "x = (n, ex)" by (cases x)
  from Cons.prems obtain r rs' where rs: "rs = r # rs'" by (cases rs) auto
  obtain c pv ps where r: "r = (c, pv, ps)" by (cases r)
  from Cons.prems
  have first: "sync_positions ex (exchange_positions ea (positions pf) n) cb (cash pf) = Inr (c, pv, ps)"
    and others: "map (\<lambda>(n, ex). sync_positions ex (exchange_positions ea (positions pf) n) cb (cash pf)) exs
                   = map Inr rs'"
    by (simp_all add: x rs r)
  show ?case
    using Cons.IH [OF others, of "tc + c" "tpv + pv" "apply_positions tr ps"]
    by (simp add: x rs r first add.assoc)
qed

lemma sync_exchanges_append:
  "sync_exchanges cb pf ea pre (tc, tpv, tr) = (Inr (tc', tpv'), tr') \<Longrightarrow>
   sync_exchanges cb pf ea (pre @ rest) (tc, tpv, tr) = sync_exchanges cb pf ea rest (tc', tpv', tr')"
proof (induction pre arbitrary: tc tpv tr)
  case Nil
  then show ?case by simp
next
  case (Cons x pre)
  obtain n ex where x: "x = (n, ex)" by (cases x)
  show ?case
  proof (cases "sync_positions ex (exchange_positions ea (positions pf) n) cb (cash pf)")
    case (Inl e)
    with Cons.prems show ?thesis by (simp add: x)
  next
    case (Inr r)
    obtain c pv ps where r: "r = (c, pv, ps)" by (cases r)
    from Cons.prems
    have "sync_exchanges cb pf ea pre (tc + c, tpv + pv, apply_positions tr ps) = (Inr (tc', tpv'), tr')"
      by (simp add: x Inr r)
    from Cons.IH [OF this] show ?thesis by (simp add: x Inr r)
  qed
qed

lemma synchronize_portfolio_fst:
  "fst (synchronize_portfolio self) =
     (case fst (sync_exchanges (\<not> py_bool (simulate_orders self)) (portfolio self)
                  (group_assets_by_exchange (map fst (positions (portfolio self))))
                  (exchanges self) (0, 0, tracker self)) of
        Inl e \<Rightarrow> Inl e
      | Inr (total_cash, v) \<Rightarrow>
          Inr (if py_bool (simulate_orders self) then cash (portfolio self) else total_cash, v))"
  by (simp add: synchronize_portfolio_def Let_def split: prod.splits sum.splits)

lemma synchronize_portfolio_snd:
  "snd (synchronize_portfolio self) =
     self\<lparr>tracker := snd (sync_exchanges (\<not> py_bool (simulate_orders self)) (portfolio self)
                  (group_assets_by_exchange (map fst (positions (portfolio self))))
                  (exchanges self) (0, 0, tracker self))\<rparr>"
  by (simp add: synchronize_portfolio_def Let_def split: prod.splits sum.splits)

lemmas example_defs =
  example_algo_def gateway_ok_def gateway_fatal_def pos_a_def pos_b_def asset_a_def asset_b_def
  sync_call_def group_assets_by_exchange_def exchange_positions_def List.map_filter_def

lemmas reconcile_defs =
  synchronize_portfolio_def apply_positions_def update_position_def

text \<open>
  Claim C1. With balances checked (\<^verbatim>\<open>simulate_orders\<close> falsy), when the call of every
  configured exchange succeeds, the total cash returned is the sum of the cash values
  the exchanges returned, and the total positions value is the sum of their positions
  values. (Sums over any type of amounts whose addition is associative with unit 0; the
  code adds them left to right, starting from 0.0.)
\<close>

theorem reconciled_totals_are_sums:
  fixes self :: "'m::monoid_add live_algo"
  assumes "\<not> py_bool (simulate_orders self)"
    and "map (sync_call self) (exchanges self) = map Inr results"
  shows "fst (synchronize_portfolio self)
           = Inr (sum_list (map fst results), sum_list (map (fst \<circ> snd) results))"
proof -
  let ?ea = "group_assets_by_exchange (map fst (positions (portfolio self)))"
  have calls: "map (\<lambda>(n, ex). sync_positions ex (exchange_positions ?ea (positions (portfolio self)) n)
                  True (cash (portfolio self))) (exchanges self) = map Inr results"
    using assms by (simp add: sync_call_def)
  from sync_exchanges_totals [OF calls, of 0 0 "tracker self"] assms(1)
  show ?thesis
    by (simp add: synchronize_portfolio_fst)
qed

theorem reconciled_totals_are_sums_witness:
  "\<not> py_bool (simulate_orders (example_algo (Some False) (gateway_ok 20 5 5)))
   \<and> fst (synchronize_portfolio (example_algo (Some False) (gateway_ok 20 5 5))) = Inr (120, 55)"
proof -
  let ?s = "example_algo (Some False) (gateway_ok 20 5 5)"
  have sim: "\<not> py_bool (simulate_orders ?s)"
    by (simp add: example_algo_def)
  have calls: "map (sync_call ?s) (exchanges ?s)
     = map Inr [(100, 50, [pos_a\<lparr>last_sale_date := 2, last_sale_price := 25\<rparr>]),
                (20, 5, [pos_b\<lparr>last_sale_date := 2, last_sale_price := 5\<rparr>])]"
    by (simp add: example_defs)
  from reconciled_totals_are_sums [OF sim calls] sim show ?thesis
    by simp
qed

text \<open>
  Claim C2. With simulated orders (\<^verbatim>\<open>simulate_orders\<close> true, so balances are not
  checked), reconciliation leaves the portfolio, and so its cash, as it was; a total cash
  it returns is the portfolio's own cash, whatever the exchanges answered; and it does
  return when every exchange's call succeeds.
\<close>

theorem simulated_orders_keep_cash:
  fixes self :: "'m::monoid_add live_algo"
  assumes "simulate_orders self = Some True"
  shows "portfolio (snd (synchronize_portfolio self)) = portfolio self
       \<and> (\<forall>total_cash v. fst (synchronize_portfolio self) = Inr (total_cash, v)
             \<longrightarrow> total_cash = cash (portfolio self))
       \<and> (map (sync_call self) (exchanges self) = map Inr results \<longrightarrow>
            fst (synchronize_portfolio self)
              = Inr (cash (portfolio self), sum_list (map (fst \<circ> snd) results)))"
proof -
  let ?ea = "group_assets_by_exchange (map fst (positions (portfolio self)))"
  have a: "portfolio (snd (synchronize_portfolio self)) = portfolio self"
    by (simp add: synchronize_portfolio_snd)
  have b: "\<forall>total_cash v. fst (synchronize_portfolio self) = Inr (total_cash, v)
             \<longrightarrow> total_cash = cash (portfolio self)"
    using assms by (auto simp: synchronize_portfolio_fst split: sum.splits)
  have c: "fst (synchronize_portfolio self)
              = Inr (cash (portfolio self), sum_list (map (fst \<circ> snd) results))"
    if h: "map (sync_call self) (exchanges self) = map Inr results"
  proof -
    have calls: "map (\<lambda>(n, ex). sync_positions ex (exchange_positions ?ea (positions (portfolio self)) n)
                  False (cash (portfolio self))) (exchanges self) = map Inr results"
      using h assms by (simp add: sync_call_def)
    from sync_exchanges_totals [OF calls, of 0 0 "tracker self"] assms
    show ?thesis
      by (simp add: synchronize_portfolio_fst)
  qed
  from a b c show ?thesis by blast
qed

theorem simulated_orders_keep_cash_witness:
  "simulate_orders (example_algo (Some True) (gateway_ok 20 5 5)) = Some True
   \<and> fst (synchronize_portfolio (example_algo (Some True) (gateway_ok 20 5 5))) = Inr (1000, 55)
   \<and> cash (portfolio (snd (synchronize_portfolio (example_algo (Some True) (gateway_ok 20 5 5))))) = 1000"
proof -
  let ?s = "example_algo (Some True) (gateway_ok 20 5 5)"
  let ?rs = "[(100::int, 50::int, [pos_a\<lparr>last_sale_date := 2, last_sale_price := 25\<rparr>]),
              (20::int, 5::int, [pos_b\<lparr>last_sale_date := 2, last_sale_price := 5\<rparr>])]"
  have sim: "simulate_orders ?s = Some True"
    by (simp add: example_algo_def)
  have calls: "map (sync_call ?s) (exchanges ?s) = map Inr ?rs"
    by (simp add: example_defs)
  have csh: "cash (portfolio ?s) = 1000"
    by (simp add: example_algo_def)
  note inst = simulated_orders_keep_cash [OF sim, where results = ?rs]
  from inst have "portfolio (snd (synchronize_portfolio ?s)) = portfolio ?s"
    by (rule conjunct1)
  then have kept: "cash (portfolio (snd (synchronize_portfolio ?s))) = 1000"
    by (simp only: csh)
  have "fst (synchronize_portfolio ?s)
      = Inr (cash (portfolio ?s), sum_list (map (fst \<circ> snd) ?rs))"
    by (rule mp [OF conjunct2 [OF conjunct2 [OF inst]] calls])
  then have res: "fst (synchronize_portfolio ?s) = Inr (1000, 55)"
    by (simp add: csh)
  from sim res kept show ?thesis by (intro conjI)
qed

text \<open>
  Claim C3, as stated, fails: exchange A answers, exchange B raises. The error of B is
  what the reconciliation raises, and the position of A's asset in the ledger has
  already been overwritten with A's answer (price 25 and date 2 instead of 10 and 1).
\<close>

theorem failed_sync_partial_merge_counterexample:
  "sync_call (example_algo (Some False) gateway_fatal) (''B'', gateway_fatal)
     = Inl (OtherError ''invalid credentials'')
   \<and> fst (synchronize_portfolio (example_algo (Some False) gateway_fatal))
     = Inl (OtherError ''invalid credentials'')
   \<and> tracker (example_algo (Some False) gateway_fatal) asset_a = Some pos_a
   \<and> tracker (snd (synchronize_portfolio (example_algo (Some False) gateway_fatal))) asset_a
     = Some (pos_a\<lparr>last_sale_date := 2, last_sale_price := 25\<rparr>)
   \<and> tracker (snd (synchronize_portfolio (example_algo (Some False) gateway_fatal))) asset_a
     \<noteq> tracker (example_algo (Some False) gateway_fatal) asset_a"
  by (simp add: example_defs reconcile_defs)

text \<open>
  Claim C3, amended. When the call of an exchange X raises, after the calls of the
  exchanges before X succeeded, the reconciliation raises that error at once. The ledger
  is then the one a complete reconciliation over the exchanges before X alone leaves:
  their merges stay applied, and nothing is merged for X or for a later exchange.
\<close>

theorem failed_sync_keeps_earlier_merges:
  fixes self :: "'m::{zero,plus} live_algo"
  assumes ex: "exchanges self = pre @ (exchange_name, ex) # post"
    and pre: "fst (synchronize_portfolio (self\<lparr>exchanges := pre\<rparr>)) = Inr totals"
    and fail: "sync_call self (exchange_name, ex) = Inl e"
  shows "synchronize_portfolio self
           = (Inl e, self\<lparr>tracker := tracker (snd (synchronize_portfolio (self\<lparr>exchanges := pre\<rparr>)))\<rparr>)"
proof -
  let ?pf = "portfolio self"
  let ?cb = "\<not> py_bool (simulate_orders self)"
  let ?ea = "group_assets_by_exchange (map fst (positions ?pf))"
  obtain r tr where run: "sync_exchanges ?cb ?pf ?ea pre (0, 0, tracker self) = (r, tr)"
    by (cases "sync_exchanges ?cb ?pf ?ea pre (0, 0, tracker self)")
  from pre run obtain tc tpv where r: "r = Inr (tc, tpv)"
    by (cases r) (auto simp: synchronize_portfolio_def Let_def split: prod.splits)
  have tr: "tracker (snd (synchronize_portfolio (self\<lparr>exchanges := pre\<rparr>))) = tr"
    using run r by (simp add: synchronize_portfolio_def Let_def)
  have "sync_exchanges ?cb ?pf ?ea (pre @ (exchange_name, ex) # post) (0, 0, tracker self)
          = sync_exchanges ?cb ?pf ?ea ((exchange_name, ex) # post) (tc, tpv, tr)"
    using run r by (intro sync_exchanges_append) simp
  also have "\<dots> = (Inl e, tr)"
    using fail by (simp add: sync_call_def)
  finally have "synchronize_portfolio self = (Inl e, self\<lparr>tracker := tr\<rparr>)"
    by (simp add: synchronize_portfolio_def Let_def ex)
  then show ?thesis by (simp only: tr)
qed

theorem failed_sync_keeps_earlier_merges_witness:
  "fst (synchronize_portfolio (example_algo (Some False) gateway_fatal))
     = Inl (OtherError ''invalid credentials'')
   \<and> tracker (snd (synchronize_portfolio (example_algo (Some False) gateway_fatal))) asset_a
     = Some (pos_a\<lparr>last_sale_date := 2, last_sale_price := 25\<rparr>)
   \<and> tracker (snd (synchronize_portfolio (example_algo (Some False) gateway_fatal))) asset_b
     = Some pos_b"
proof -
  let ?s = "example_algo (Some False) gateway_fatal"
  have ex: "exchanges ?s = [(''A'', gateway_ok 100 50 25)] @ (''B'', gateway_fatal) # []"
    by (simp add: example_algo_def)
  have pre: "fst (synchronize_portfolio (?s\<lparr>exchanges := [(''A'', gateway_ok 100 50 25)]\<rparr>))
               = Inr (100, 50)"
    by (simp add: example_defs reconcile_defs)
  have fail: "sync_call ?s (''B'', gateway_fatal) = Inl (OtherError ''invalid credentials'')"
    by (simp add: example_defs)
  have before: "tracker (snd (synchronize_portfolio (?s\<lparr>exchanges := [(''A'', gateway_ok 100 50 25)]\<rparr>)))
      = [asset_a \<mapsto> pos_a\<lparr>last_sale_date := 2, last_sale_price := 25\<rparr>, asset_b \<mapsto> pos_b]"
    by (rule ext) (simp add: example_defs reconcile_defs)
  have ab: "asset_a \<noteq> asset_b"
    by (simp add: asset_a_def asset_b_def)
  from failed_sync_keeps_earlier_merges [OF ex pre fail] before ab
  show ?thesis by simp
qed

subsection \<open>Attribution of the merged positions\<close>












subsection \<open>Retry of the portfolio synchronisation\<close>

lemma retry_from_events:
  "retry_from k action s R msg w = (r, w', evs) \<Longrightarrow>
     attempts_made evs \<noteq> [] \<and> length (attempts_made evs) \<le> Suc k
   \<and> sleeps evs = replicate (length (attempts_made evs) - 1) s
   \<and> (\<forall>x \<in> set (butlast (attempts_made evs)). \<exists>e. x = Some e \<and> R e)
   \<and> last (attempts_made evs) = (case r of Inl e \<Rightarrow> Some e | Inr v \<Rightarrow> None)
   \<and> (\<forall>e. r = Inl e \<and> R e \<longrightarrow> length (attempts_made evs) = Suc k)"
proof (induction k arbitrary: w r w' evs)
  case 0
  then show ?case by (auto split: prod.splits sum.splits)
next
  case (Suc k)
  obtain r0 w0 where act: "action w = (r0, w0)" by (cases "action w")
  show ?case
  proof (cases r0)
    case (Inr v)
    with Suc.prems act show ?thesis by auto
  next
    case (Inl e)
    show ?thesis
    proof (cases "R e")
      case False
      with Suc.prems act Inl show ?thesis by auto
    next
      case True
      obtain r1 w1 evs1 where rec: "retry_from k action s R msg w0 = (r1, w1, evs1)"
        by (cases "retry_from k action s R msg w0")
      from Suc.prems act Inl True rec
      have r: "r = r1" and evs: "evs = Attempt (Some e) # Warned msg # Slept s # evs1"
        by simp_all
      note ih = Suc.IH [OF rec]
      from ih have ne: "attempts_made evs1 \<noteq> []" by simp
      then obtain n where n: "length (attempts_made evs1) = Suc n"
        by (cases "attempts_made evs1") auto
      have am: "attempts_made evs = Some e # attempts_made evs1"
        and sl: "sleeps evs = s # sleeps evs1"
        by (simp_all add: evs)
      from ih ne n True show ?thesis
        unfolding am sl r by (auto simp: replicate_Suc [symmetric] simp del: replicate_Suc)
    qed
  qed
qed

text \<open>
  Claim C4. In a tick of the running algorithm that needs a portfolio update, the
  synchronisation is attempted at least once and at most 5 times; between two attempts
  the executor sleeps the fixed interval 5; every attempt that was followed by another
  one had failed with an \<open>ExchangeRequestError\<close>; and when the last attempt failed, its
  error is what \<open>handle_data\<close> raises: an error of another kind at once, a request error
  only as the fifth in a row.
\<close>

theorem sync_retried_on_request_errors_only:
  assumes running: "is_running self"
    and needs: "portfolio_needs_update self"
    and book: "bookkeeping (world self) = Inr w0"
    and run: "handle_data bookkeeping synchronize rest self = (res, self', evs)"
  shows "1 \<le> length (attempts_made evs) \<and> length (attempts_made evs) \<le> 5
       \<and> sleeps evs = replicate (length (attempts_made evs) - 1) 5
       \<and> (\<forall>x \<in> set (butlast (attempts_made evs)). \<exists>msg. x = Some (ExchangeRequestError msg))
       \<and> (\<forall>e. last (attempts_made evs) = Some e \<longrightarrow>
              res = Inl e
            \<and> ((\<exists>msg. e = ExchangeRequestError msg) \<longrightarrow> length (attempts_made evs) = 5))"
proof -
  obtain r w1 evs1 where
    rt: "retry_from 4 synchronize 5 isinstance_ExchangeRequestError ''Ordering again.'' w0 = (r, w1, evs1)"
    by (cases "retry_from 4 synchronize 5 isinstance_ExchangeRequestError ''Ordering again.'' w0")
  have evs: "evs = evs1" and res: "\<And>e. r = Inl e \<Longrightarrow> res = Inl e"
    using run running needs book rt
    by (auto simp: handle_data_def retry_def attempts_def split: sum.splits prod.splits)
  have kind: "isinstance_ExchangeRequestError e = (\<exists>msg. e = ExchangeRequestError msg)" for e
    by (cases e) simp_all
  note ev = retry_from_events [OF rt]
  from ev have l: "last (attempts_made evs1) = (case r of Inl e \<Rightarrow> Some e | Inr v \<Rightarrow> None)"
    by simp
  have a: "1 \<le> length (attempts_made evs) \<and> length (attempts_made evs) \<le> 5"
    using ev by (cases "attempts_made evs1") (simp_all add: evs)
  have b: "sleeps evs = replicate (length (attempts_made evs) - 1) 5"
    using ev by (simp add: evs)
  have c: "\<forall>x \<in> set (butlast (attempts_made evs)). \<exists>msg. x = Some (ExchangeRequestError msg)"
    using ev by (auto simp: evs kind)
  have d: "res = Inl e \<and> ((\<exists>msg. e = ExchangeRequestError msg) \<longrightarrow> length (attempts_made evs) = 5)"
    if "last (attempts_made evs) = Some e" for e
  proof -
    from that l have re: "r = Inl e" by (cases r) (simp_all add: evs)
    with res have "res = Inl e" by simp
    moreover from ev re have "isinstance_ExchangeRequestError e \<longrightarrow> length (attempts_made evs1) = 5"
      by simp
    ultimately show ?thesis by (simp add: evs kind)
  qed
  from a b c d show ?thesis by blast
qed

theorem sync_retried_on_request_errors_only_witness:
  "is_running example_run \<and> portfolio_needs_update example_run
   \<and> fst (handle_data Inr always_busy (\<lambda>s. (Inr (), s)) example_run)
       = Inl (ExchangeRequestError ''timeout'')
   \<and> length (attempts_made (snd (snd (handle_data Inr always_busy (\<lambda>s. (Inr (), s)) example_run)))) = 5
   \<and> sleeps (snd (snd (handle_data Inr always_busy (\<lambda>s. (Inr (), s)) example_run))) = [5, 5, 5, 5]"
proof -
  let ?e = "ExchangeRequestError ''timeout''"
  let ?evs = "[Attempt (Some ?e), Warned ''Ordering again.'', Slept 5,
               Attempt (Some ?e), Warned ''Ordering again.'', Slept 5,
               Attempt (Some ?e), Warned ''Ordering again.'', Slept 5,
               Attempt (Some ?e), Warned ''Ordering again.'', Slept 5,
               Attempt (Some ?e)]"
  have running: "is_running example_run" and needs: "portfolio_needs_update example_run"
    by (simp_all add: example_run_def)
  have book: "Inr (world example_run) = (Inr 0 :: error + nat)"
    by (simp add: example_run_def)
  have run: "handle_data Inr always_busy (\<lambda>s. (Inr (), s)) example_run
               = (Inl ?e, example_run\<lparr>world := 5\<rparr>, ?evs)"
    by (simp add: handle_data_def retry_def attempts_def example_run_def always_busy_def
        eval_nat_numeral)
  have lst: "last (attempts_made ?evs) = Some ?e"
    by simp
  note inst = sync_retried_on_request_errors_only [OF running needs book run]
  from inst have sl: "sleeps ?evs = replicate (length (attempts_made ?evs) - 1) 5"
    by blast
  from inst lst have len: "length (attempts_made ?evs) = 5"
    by blast
  from sl len have "sleeps ?evs = [5, 5, 5, 5]"
    by (simp add: eval_nat_numeral)
  with running needs len show ?thesis
    by (simp add: run)
qed

subsection \<open>Shutdown\<close>



subsection \<open>Period statistics\<close>

lemma set_window_transactions:
  "set (window_transactions start_dt end_dt by_date)
     = {t. \<exists>date ts. (date, ts) \<in> set by_date \<and> start_dt \<le> date \<and> date < end_dt \<and> t \<in> set ts}"
  by (auto simp: window_transactions_def split: if_splits)

lemma set_window_orders:
  "set (window_orders start_dt end_dt by_date)
     = {ord. \<exists>date os k. (date, os) \<in> set by_date \<and> start_dt \<le> date \<and> date < end_dt
                \<and> (k, ord) \<in> set os}"
  by (force simp: window_orders_def split: if_splits)

lemma window_transactions_empty:
  "(\<forall>(date, ts) \<in> set by_date. start_dt \<le> date \<and> date < end_dt \<longrightarrow> ts = []) \<Longrightarrow>
   window_transactions start_dt end_dt by_date = []"
  by (induction by_date) (auto simp: window_transactions_def split: if_splits)

lemma window_orders_empty:
  "(\<forall>(date, os) \<in> set by_date. start_dt \<le> date \<and> date < end_dt \<longrightarrow> os = []) \<Longrightarrow>
   window_orders start_dt end_dt by_date = []"
  by (induction by_date) (auto simp: window_orders_def split: if_splits)

lemma prepare_period_stats_lists:
  assumes "perf_tracker self = Some tr"
  shows "\<exists>stats. prepare_period_stats fns self start_dt end_dt = Inr stats
     \<and> stats ''transactions'' = Some (Dicts (map (transaction_to_dict fns)
          (window_transactions start_dt end_dt (processed_transactions (todays_performance tr)))))
     \<and> stats ''orders'' = Some (Dicts (map (order_to_dict fns)
          (window_orders start_dt end_dt (orders_by_modified (todays_performance tr)))))"
  using assms by (simp add: prepare_period_stats_def Let_def)


text \<open>
  Claim C8. With a performance tracker, \<open>prepare_period_stats\<close> returns a dictionary in
  which the keys \<open>transactions\<close> and \<open>orders\<close> are bound to lists, whatever the risk
  metrics and the recorded variables hold: the transactions (the orders) filed under the
  dates \<open>d\<close> with \<open>start_dt \<le> d < end_dt\<close>, and no other. When no transaction (no
  order) is filed under a date of the window, the list is empty.
\<close>

theorem period_stats_lists_window_only:
  assumes "perf_tracker self = Some tr"
  shows "\<exists>stats. prepare_period_stats fns self start_dt end_dt = Inr stats
     \<and> stats ''transactions'' = Some (Dicts (map (transaction_to_dict fns)
          (window_transactions start_dt end_dt (processed_transactions (todays_performance tr)))))
     \<and> stats ''orders'' = Some (Dicts (map (order_to_dict fns)
          (window_orders start_dt end_dt (orders_by_modified (todays_performance tr)))))
     \<and> set (window_transactions start_dt end_dt (processed_transactions (todays_performance tr)))
          = {t. \<exists>date ts. (date, ts) \<in> set (processed_transactions (todays_performance tr))
                  \<and> start_dt \<le> date \<and> date < end_dt \<and> t \<in> set ts}
     \<and> set (window_orders start_dt end_dt (orders_by_modified (todays_performance tr)))
          = {ord. \<exists>date os k. (date, os) \<in> set (orders_by_modified (todays_performance tr))
                  \<and> start_dt \<le> date \<and> date < end_dt \<and> (k, ord) \<in> set os}
     \<and> ((\<forall>(date, ts) \<in> set (processed_transactions (todays_performance tr)).
             start_dt \<le> date \<and> date < end_dt \<longrightarrow> ts = [])
          \<longrightarrow> stats ''transactions'' = Some (Dicts []))
     \<and> ((\<forall>(date, os) \<in> set (orders_by_modified (todays_performance tr)).
             start_dt \<le> date \<and> date < end_dt \<longrightarrow> os = [])
          \<longrightarrow> stats ''orders'' = Some (Dicts []))"
proof -
  from prepare_period_stats_lists [OF assms, of fns start_dt end_dt]
  obtain stats where st: "prepare_period_stats fns self start_dt end_dt = Inr stats"
    and tx: "stats ''transactions'' = Some (Dicts (map (transaction_to_dict fns)
          (window_transactions start_dt end_dt (processed_transactions (todays_performance tr)))))"
    and od: "stats ''orders'' = Some (Dicts (map (order_to_dict fns)
          (window_orders start_dt end_dt (orders_by_modified (todays_performance tr)))))"
    by blast
  have e1: "stats ''transactions'' = Some (Dicts [])"
    if "\<forall>(date, ts) \<in> set (processed_transactions (todays_performance tr)).
             start_dt \<le> date \<and> date < end_dt \<longrightarrow> ts = []"
    using window_transactions_empty [OF that] tx by simp
  have e2: "stats ''orders'' = Some (Dicts [])"
    if "\<forall>(date, os) \<in> set (orders_by_modified (todays_performance tr)).
             start_dt \<le> date \<and> date < end_dt \<longrightarrow> os = []"
    using window_orders_empty [OF that] od by simp
  show ?thesis
  proof (intro exI [of _ stats] conjI impI)
    show "prepare_period_stats fns self start_dt end_dt = Inr stats" by (rule st)
    show "stats ''transactions'' = Some (Dicts (map (transaction_to_dict fns)
          (window_transactions start_dt end_dt (processed_transactions (todays_performance tr)))))"
      by (rule tx)
    show "stats ''orders'' = Some (Dicts (map (order_to_dict fns)
          (window_orders start_dt end_dt (orders_by_modified (todays_performance tr)))))"
      by (rule od)
    show "set (window_transactions start_dt end_dt (processed_transactions (todays_performance tr)))
          = {t. \<exists>date ts. (date, ts) \<in> set (processed_transactions (todays_performance tr))
                  \<and> start_dt \<le> date \<and> date < end_dt \<and> t \<in> set ts}"
      by (rule set_window_transactions)
    show "set (window_orders start_dt end_dt (orders_by_modified (todays_performance tr)))
          = {ord. \<exists>date os k. (date, os) \<in> set (orders_by_modified (todays_performance tr))
                  \<and> start_dt \<le> date \<and> date < end_dt \<and> (k, ord) \<in> set os}"
      by (rule set_window_orders)
    show "stats ''transactions'' = Some (Dicts [])"
      if "\<forall>(date, ts) \<in> set (processed_transactions (todays_performance tr)).
             start_dt \<le> date \<and> date < end_dt \<longrightarrow> ts = []"
      using that by (rule e1)
    show "stats ''orders'' = Some (Dicts [])"
      if "\<forall>(date, os) \<in> set (orders_by_modified (todays_performance tr)).
             start_dt \<le> date \<and> date < end_dt \<longrightarrow> os = []"
      using that by (rule e2)
  qed
qed

theorem period_stats_lists_window_only_witness:
  "perf_tracker (example_core\<lparr>perf_tracker := Some (example_tracker example_period)\<rparr>)
     = Some (example_tracker example_period)
   \<and> (\<exists>stats. prepare_period_stats example_fns
                  (example_core\<lparr>perf_tracker := Some (example_tracker example_period)\<rparr>) 10 11
                = Inr stats
          \<and> stats ''transactions'' = Some (Dicts [])
          \<and> stats ''orders'' = Some (Dicts []))
   \<and> (\<exists>stats. prepare_period_stats example_fns
                  (example_core\<lparr>perf_tracker := Some (example_tracker example_period)\<rparr>) 5 6
                = Inr stats
          \<and> stats ''transactions'' = Some (Dicts [''buy btc'']))"
proof -
  let ?self = "example_core\<lparr>perf_tracker := Some (example_tracker example_period)\<rparr>"
  let ?today = "todays_performance (example_tracker example_period)"
  have tr: "perf_tracker ?self = Some (example_tracker example_period)"
    by simp
  have no_tx: "\<forall>(date, ts) \<in> set (processed_transactions ?today). 10 \<le> date \<and> date < 11 \<longrightarrow> ts = []"
    by (simp add: example_tracker_def example_period_def)
  have no_ord: "\<forall>(date, os) \<in> set (orders_by_modified ?today). 10 \<le> date \<and> date < 11 \<longrightarrow> os = []"
    by (simp add: example_tracker_def example_period_def)
  have win: "map (transaction_to_dict example_fns) (window_transactions 5 6 (processed_transactions ?today))
               = [''buy btc'']"
    by (simp add: example_tracker_def example_period_def example_fns_def window_transactions_def)
  from period_stats_lists_window_only [OF tr, of example_fns 10 11] no_tx no_ord
  have a: "\<exists>stats. prepare_period_stats example_fns ?self 10 11 = Inr stats
          \<and> stats ''transactions'' = Some (Dicts [])
          \<and> stats ''orders'' = Some (Dicts [])"
    by blast
  from period_stats_lists_window_only [OF tr, of example_fns 5 6]
  have b: "\<exists>stats. prepare_period_stats example_fns ?self 5 6 = Inr stats
          \<and> stats ''transactions'' = Some (Dicts [''buy btc''])"
    unfolding win by blast
  from tr a b show ?thesis by (intro conjI)
qed

subsection \<open>Restart from the checkpoint\<close>

text \<open>
  Claim C5. At start-up (no trading client, no performance tracker yet)
  \<open>get_generator\<close> loads the cumulative checkpoint. When it is found, it becomes the
  tracker's cumulative performance, as it was saved, and today's starting cash, exposure
  and value are its ending cash, exposure and value, and today's positions are its
  positions. When it is not found, the tracker is the new one: a cold start, without an
  error. What was saved under the key is what is found there.
\<close>

theorem restart_resumes_from_checkpoint:
  assumes "trading_client self = None" and "perf_tracker self = None"
  shows "(get_algo_object store (algo_namespace self) ''cumulative_performance'' = Some perf \<longrightarrow>
           (\<exists>tr. perf_tracker (get_generator store new_tracker self) = Some tr
              \<and> cumulative_performance tr = perf
              \<and> starting_cash (todays_performance tr) = ending_cash perf
              \<and> starting_exposure (todays_performance tr) = ending_exposure perf
              \<and> starting_value (todays_performance tr) = ending_value perf
              \<and> position_tracker (todays_performance tr) = position_tracker perf))
       \<and> (get_algo_object store (algo_namespace self) ''cumulative_performance'' = None \<longrightarrow>
           perf_tracker (get_generator store new_tracker self) = Some new_tracker)
       \<and> get_algo_object
            (save_algo_object store (algo_namespace self) ''cumulative_performance'' perf)
            (algo_namespace self) ''cumulative_performance'' = Some perf
       \<and> trading_client (get_generator store new_tracker self) = Some Executor"
  using assms
  by (simp add: get_generator_def get_algo_object_def save_algo_object_def Let_def)

theorem restart_resumes_from_checkpoint_witness:
  "trading_client example_core = None \<and> perf_tracker example_core = None
   \<and> (\<exists>tr. perf_tracker (get_generator
                (save_algo_object Map.empty ''my_algo'' ''cumulative_performance'' example_period)
                (example_tracker new_period) example_core) = Some tr
          \<and> ending_cash (cumulative_performance tr) = 900
          \<and> ending_value (cumulative_performance tr) = 150
          \<and> position_tracker (cumulative_performance tr) asset_a = Some pos_a
          \<and> starting_cash (todays_performance tr) = 900
          \<and> starting_value (todays_performance tr) = 150
          \<and> position_tracker (todays_performance tr) asset_a = Some pos_a)
   \<and> perf_tracker (get_generator Map.empty (example_tracker new_period) example_core)
       = Some (example_tracker new_period)"
proof -
  let ?store = "save_algo_object Map.empty ''my_algo'' ''cumulative_performance'' example_period"
  let ?new = "example_tracker new_period"
  have fresh: "trading_client example_core = None" "perf_tracker example_core = None"
    by (simp_all add: example_core_def)
  have found: "get_algo_object ?store (algo_namespace example_core) ''cumulative_performance''
                 = Some example_period"
    by (simp add: get_algo_object_def save_algo_object_def example_core_def)
  have missing: "get_algo_object Map.empty (algo_namespace example_core) ''cumulative_performance''
                 = (None :: (int, string, string) performance_period option)"
    by (simp add: get_algo_object_def)
  have vals: "ending_cash example_period = 900" "ending_value example_period = 150"
    "position_tracker example_period asset_a = Some pos_a"
    by (simp_all add: example_period_def)
  from restart_resumes_from_checkpoint [OF fresh, of ?store example_period ?new] found
  obtain tr where "perf_tracker (get_generator ?store ?new example_core) = Some tr"
    "cumulative_performance tr = example_period"
    "starting_cash (todays_performance tr) = ending_cash example_period"
    "starting_value (todays_performance tr) = ending_value example_period"
    "position_tracker (todays_performance tr) = position_tracker example_period"
    by blast
  with vals have a: "\<exists>tr. perf_tracker (get_generator ?store ?new example_core) = Some tr
          \<and> ending_cash (cumulative_performance tr) = 900
          \<and> ending_value (cumulative_performance tr) = 150
          \<and> position_tracker (cumulative_performance tr) asset_a = Some pos_a
          \<and> starting_cash (todays_performance tr) = 900
          \<and> starting_value (todays_performance tr) = 150
          \<and> position_tracker (todays_performance tr) asset_a = Some pos_a"
    by simp
  from restart_resumes_from_checkpoint [OF fresh, of Map.empty example_period ?new] missing
  have b: "perf_tracker (get_generator Map.empty ?new example_core) = Some ?new"
    by blast
  from fresh a b show ?thesis by (intro conjI)
qed

end
